theory Spec2Isabelle
  imports Complex_Main "HOL-Library.Word"
begin

section \<open>The video engine of maxmiize-v1\<close>

text \<open>
  A shallow embedding of \<^verbatim>\<open>Sources/Core/Video/VideoEngine.hpp\<close> and
  \<^verbatim>\<open>VideoEngine.cpp\<close>: the class \<^verbatim>\<open>maxmiize::video::VideoEngine\<close> with its two
  private members, and its member functions as functions that take the object and return
  the result together with the object as the call leaves it.

  Every member function also prints one diagnostic line on \<^verbatim>\<open>std::cout\<close> or
  \<^verbatim>\<open>std::cerr\<close>. The streams are written and never read back, no branch depends on
  them, and they are no part of the object or of the caller's buffer: the functions below
  do not thread them through. What a call of \<^verbatim>\<open>extractFrame\<close> prints is given by a
  function of its own, \<open>extractFrame_prints\<close>.
\<close>

subsection \<open>Machine types\<close>

type_synonym int64_t = "64 word"
type_synonym int32_t = "32 word"
type_synonym uint8_t = "8 word"
type_synonym size_t = "64 word"

text \<open>
  The signed types are words read with \<^const>\<open>sint\<close>. A \<^verbatim>\<open>double\<close> is a finite
  number, an infinity or a NaN; the source does no arithmetic on it and only ever stores
  the literal \<^verbatim>\<open>30.0\<close>, which binary64 holds exactly.
\<close>

datatype double = Finite real | PlusInfinity | MinusInfinity | NaN

text \<open>The comparison \<^verbatim>\<open>d > 0.0\<close> of IEEE 754: false on a NaN.\<close>

fun gt_zero :: "double \<Rightarrow> bool" where
  "gt_zero (Finite r) = (0 < r)"
| "gt_zero PlusInfinity = True"
| "gt_zero MinusInfinity = False"
| "gt_zero NaN = False"

subsection \<open>The data: \<^verbatim>\<open>VideoMetadata\<close> and \<^verbatim>\<open>VideoEngine\<close>\<close>

record VideoMetadata =
  filePath :: string
  durationMs :: int64_t
  frameRate :: double
  width :: int32_t
  height :: int32_t
  codec :: string

text \<open>
  The private members \<^verbatim>\<open>initialized_\<close> and \<^verbatim>\<open>metadata_\<close> are the fields
  \<open>initialized\<close> and \<open>metadata\<close>: a name cannot end with an underscore here.
\<close>

record VideoEngine =
  initialized :: bool
  metadata :: VideoMetadata

text \<open>
  The constructor sets \<^verbatim>\<open>initialized_(false)\<close> and default-initialises
  \<^verbatim>\<open>metadata_\<close>: the two strings are empty, the four scalar members are left
  indeterminate. Their contents are the parameters \<open>d\<close>, \<open>f\<close>, \<open>w\<close> and \<open>h\<close>.
\<close>

definition VideoEngine_ctor :: "int64_t \<Rightarrow> double \<Rightarrow> int32_t \<Rightarrow> int32_t \<Rightarrow> VideoEngine" where
  "VideoEngine_ctor d f w h =
     \<lparr>initialized = False,
      metadata = \<lparr>filePath = [], durationMs = d, frameRate = f,
                   width = w, height = h, codec = []\<rparr>\<rparr>"

subsection \<open>The member functions\<close>

text \<open>\<^verbatim>\<open>bool VideoEngine::initialize()\<close>\<close>

definition initialize :: "VideoEngine \<Rightarrow> bool \<times> VideoEngine" where
  "initialize e =
     (if initialized e then (True, e)
      else (True, e\<lparr>initialized := True\<rparr>))"

text \<open>\<^verbatim>\<open>bool VideoEngine::loadVideo(const std::string& filePath)\<close>\<close>

definition loadVideo :: "VideoEngine \<Rightarrow> string \<Rightarrow> bool \<times> VideoEngine" where
  "loadVideo e path =
     (if \<not> initialized e then (False, e)
      else (True,
            e\<lparr>metadata := (metadata e)\<lparr>filePath := path,
                                           durationMs := 0,
                                           frameRate := Finite 30,
                                           width := 1920,
                                           height := 1080,
                                           codec := ''h264''\<rparr>\<rparr>))"

text \<open>\<^verbatim>\<open>VideoMetadata VideoEngine::getMetadata() const\<close>: a copy of the member.\<close>

definition getMetadata :: "VideoEngine \<Rightarrow> VideoMetadata" where
  "getMetadata e = metadata e"

text \<open>
  \<^verbatim>\<open>bool VideoEngine::extractFrame(int64_t timestampMs, uint8_t* buffer, size_t bufferSize)\<close>.
  The list \<open>buffer\<close> is the memory the pointer refers to; the function returns it as the
  call leaves it, after the result and before the object.
\<close>

definition extractFrame ::
  "VideoEngine \<Rightarrow> int64_t \<Rightarrow> uint8_t list \<Rightarrow> size_t \<Rightarrow> bool \<times> uint8_t list \<times> VideoEngine" where
  "extractFrame e timestampMs buffer bufferSize =
     (if \<not> initialized e then (False, buffer, e)
      else (True, buffer, e))"

text \<open>
  The output of \<^verbatim>\<open>extractFrame\<close>: the lines the call prints, in order, each with the
  stream it goes to and the operands of its \<^verbatim>\<open><<\<close> chain up to \<^verbatim>\<open>std::endl\<close>.
  The guard branch prints \<^verbatim>\<open>std::cerr << "VideoEngine: Not initialized"\<close>, the other
  branch \<^verbatim>\<open>std::cout << "VideoEngine: Extracting frame at " << timestampMs << "ms"\<close>.
\<close>

datatype stream = Cout | Cerr

datatype operand = Str string | Int64 int64_t

definition extractFrame_prints ::
  "VideoEngine \<Rightarrow> int64_t \<Rightarrow> uint8_t list \<Rightarrow> size_t \<Rightarrow> (stream \<times> operand list) list" where
  "extractFrame_prints e timestampMs buffer bufferSize =
     (if \<not> initialized e then [(Cerr, [Str ''VideoEngine: Not initialized''])]
      else [(Cout, [Str ''VideoEngine: Extracting frame at '', Int64 timestampMs, Str ''ms''])])"

text \<open>\<^verbatim>\<open>static std::string VideoEngine::getVersion()\<close>\<close>

definition getVersion :: string where
  "getVersion = ''1.0.0''"

subsection \<open>Sequences of calls\<close>

text \<open>
  A client of the class is a sequence of calls of its public member functions on one
  object. \<open>call_step\<close> gives the object after one call, \<open>calls\<close> after a sequence.
\<close>

datatype call =
    Initialize
  | LoadVideo string
  | GetMetadata
  | ExtractFrame int64_t "uint8_t list" size_t

fun call_step :: "call \<Rightarrow> VideoEngine \<Rightarrow> VideoEngine" where
  "call_step Initialize e = snd (initialize e)"
| "call_step (LoadVideo path) e = snd (loadVideo e path)"
| "call_step GetMetadata e = (let m = getMetadata e in e)"
| "call_step (ExtractFrame timestampMs buffer bufferSize) e =
     snd (snd (extractFrame e timestampMs buffer bufferSize))"

definition calls :: "call list \<Rightarrow> VideoEngine \<Rightarrow> VideoEngine" where
  "calls cs e = fold call_step cs e"

subsection \<open>The predicates of the specification\<close>

text \<open>
  The invariant of \<^verbatim>\<open>VideoMetadata\<close> after a successful load:
  \<^verbatim>\<open>durationMs >= 0\<close>, \<^verbatim>\<open>frameRate > 0\<close>, \<^verbatim>\<open>width, height > 0\<close>.
\<close>

definition metadata_valid :: "VideoMetadata \<Rightarrow> bool" where
  "metadata_valid m =
     (0 \<le> sint (durationMs m) \<and> gt_zero (frameRate m) \<and>
      0 < sint (width m) \<and> 0 < sint (height m))"

text \<open>A timestamp inside \<^verbatim>\<open>[0, durationMs)\<close>.\<close>

definition in_range :: "int64_t \<Rightarrow> VideoMetadata \<Rightarrow> bool" where
  "in_range timestampMs m = (0 \<le> sint timestampMs \<and> sint timestampMs < sint (durationMs m))"

text \<open>
  The size of one decoded frame, \<^verbatim>\<open>width * height * bytesPerPixel\<close>. The source has no
  pixel format: the number of bytes per pixel is the parameter \<open>bpp\<close>.
\<close>

definition frameBytes :: "nat \<Rightarrow> VideoMetadata \<Rightarrow> int" where
  "frameBytes bpp m = sint (width m) * sint (height m) * int bpp"

subsection \<open>Example objects\<close>

text \<open>
  An object as the constructor leaves it (with some contents for the indeterminate
  members), the same object after \<^verbatim>\<open>initialize()\<close>, and after
  \<^verbatim>\<open>loadVideo("clip.mp4")\<close>; a caller's buffer of 10 bytes, and one of
  \<open>1920 * 1080 * 4\<close> bytes.
\<close>

definition fresh_engine :: VideoEngine where
  "fresh_engine = VideoEngine_ctor 10000 NaN (- 1) 0"

definition ready_engine :: VideoEngine where
  "ready_engine = snd (initialize fresh_engine)"

definition loaded_engine :: VideoEngine where
  "loaded_engine = snd (loadVideo ready_engine ''clip.mp4'')"

definition small_buffer :: "uint8_t list" where
  "small_buffer = [0, 1, 2, 3, 4, 5, 6, 7, 8, 9]"

definition frame_buffer :: "uint8_t list" where
  "frame_buffer = replicate (1920 * 1080 * 4) 0"

section \<open>Basic facts\<close>

lemma initialize_result: "initialize e = (True, e\<lparr>initialized := True\<rparr>)"
  by (simp add: initialize_def)

lemma loadVideo_uninitialized: "\<not> initialized e \<Longrightarrow> loadVideo e path = (False, e)"
  by (simp add: loadVideo_def)

lemma loadVideo_initialized:
  "initialized e \<Longrightarrow>
   loadVideo e path =
     (True, e\<lparr>metadata := \<lparr>filePath = path, durationMs = 0, frameRate = Finite 30,
                             width = 1920, height = 1080, codec = ''h264''\<rparr>\<rparr>)"
  by (simp add: loadVideo_def)

lemma loadVideo_success_iff: "fst (loadVideo e path) = initialized e"
  by (simp add: loadVideo_def)

lemma loadVideo_keeps_flag: "initialized (snd (loadVideo e path)) = initialized e"
  by (simp add: loadVideo_def)

lemma extractFrame_result:
  "extractFrame e timestampMs buffer bufferSize = (initialized e, buffer, e)"
  by (simp add: extractFrame_def)

lemma call_step_keeps_flag: "initialized e \<Longrightarrow> initialized (call_step c e)"
  by (cases c) (simp_all add: initialize_result loadVideo_keeps_flag extractFrame_result)

lemma calls_keep_flag: "initialized e \<Longrightarrow> initialized (calls cs e)"
  unfolding calls_def
  by (induction cs arbitrary: e) (simp_all add: call_step_keeps_flag)

lemma calls_append: "calls (cs @ ds) e = calls ds (calls cs e)"
  by (simp add: calls_def)

lemma calls_Cons: "calls (c # cs) e = calls cs (call_step c e)"
  by (simp add: calls_def)

lemma call_step_preserves_valid:
  "metadata_valid (metadata e) \<Longrightarrow> metadata_valid (metadata (call_step c e))"
  by (cases c)
     (simp_all add: initialize_result loadVideo_def extractFrame_result metadata_valid_def)

lemma calls_preserve_valid:
  "metadata_valid (metadata e) \<Longrightarrow> metadata_valid (metadata (calls cs e))"
  unfolding calls_def
  by (induction cs arbitrary: e) (simp_all add: call_step_preserves_valid)

lemma loaded_metadata_valid:
  "initialized e \<Longrightarrow> metadata_valid (metadata (snd (loadVideo e path)))"
  by (simp add: loadVideo_initialized metadata_valid_def)

text \<open>
  \<^verbatim>\<open>loadVideo\<close> stores \<^verbatim>\<open>durationMs = 0\<close> whatever the file is, and no other member
  function writes the member: once a load has succeeded, no timestamp lies in
  \<^verbatim>\<open>[0, durationMs)\<close>.
\<close>

lemma call_step_duration_zero:
  "durationMs (metadata e) = 0 \<Longrightarrow> durationMs (metadata (call_step c e)) = 0"
  by (cases c) (simp_all add: initialize_result loadVideo_def extractFrame_result)

lemma calls_duration_zero:
  "durationMs (metadata e) = 0 \<Longrightarrow> durationMs (metadata (calls cs e)) = 0"
  unfolding calls_def
  by (induction cs arbitrary: e) (simp_all add: call_step_duration_zero)

lemma loaded_range_empty:
  assumes "fst (loadVideo e path)"
  shows "\<not> in_range timestampMs (getMetadata (calls cs (snd (loadVideo e path))))"
proof -
  from assms have "initialized e"
    by (simp add: loadVideo_success_iff)
  then have "durationMs (metadata (snd (loadVideo e path))) = 0"
    by (simp add: loadVideo_initialized)
  then have "durationMs (metadata (calls cs (snd (loadVideo e path)))) = 0"
    by (rule calls_duration_zero)
  then show ?thesis
    by (simp add: in_range_def getMetadata_def)
qed

lemma fresh_engine_uninitialized: "\<not> initialized fresh_engine"
  by (simp add: fresh_engine_def VideoEngine_ctor_def)

lemma ready_engine_initialized: "initialized ready_engine"
  by (simp add: ready_engine_def initialize_result)

lemma loaded_engine_eq:
  "loaded_engine =
     \<lparr>initialized = True,
      metadata = \<lparr>filePath = ''clip.mp4'', durationMs = 0, frameRate = Finite 30,
                   width = 1920, height = 1080, codec = ''h264''\<rparr>\<rparr>"
  by (simp add: loaded_engine_def ready_engine_def fresh_engine_def VideoEngine_ctor_def
      initialize_result loadVideo_def)

section \<open>The claims\<close>

subsection \<open>\<^verbatim>\<open>extractFrame\<close>: which calls fail\<close>

text \<open>
  C1, as the specification states it: on an engine with a loaded video, every timestamp
  outside \<^verbatim>\<open>[0, durationMs)\<close> makes \<^verbatim>\<open>extractFrame\<close> fail, and on an engine with no
  video loaded every call fails. The code does neither: after
  \<^verbatim>\<open>initialize(); loadVideo("clip.mp4")\<close> the timestamps \<open>-1\<close> and \<^verbatim>\<open>durationMs\<close>
  are both out of range and both calls return \<^verbatim>\<open>true\<close>, and so does a call on the
  initialized engine that has loaded nothing.
\<close>

theorem extractFrame_out_of_range_counterexample:
  "fst (loadVideo ready_engine ''clip.mp4'') = True
   \<and> \<not> in_range (- 1) (getMetadata loaded_engine)
   \<and> fst (extractFrame loaded_engine (- 1) frame_buffer 8294400) = True
   \<and> \<not> in_range (durationMs (getMetadata loaded_engine)) (getMetadata loaded_engine)
   \<and> fst (extractFrame loaded_engine (durationMs (getMetadata loaded_engine))
            frame_buffer 8294400) = True
   \<and> fst (extractFrame ready_engine 0 frame_buffer 8294400) = True"
  by (simp add: loaded_engine_eq ready_engine_initialized loadVideo_success_iff
      extractFrame_result in_range_def getMetadata_def)

text \<open>
  C1, amended: \<^verbatim>\<open>extractFrame\<close> checks neither the timestamp nor whether a video is
  loaded. It fails exactly when the engine is not initialized, and on an initialized engine
  it returns \<^verbatim>\<open>true\<close> for every timestamp, before and after a load.
\<close>

theorem extractFrame_fails_iff_uninitialized:
  "fst (extractFrame e timestampMs buffer bufferSize) = initialized e
   \<and> fst (extractFrame (snd (loadVideo e path)) timestampMs buffer bufferSize) = initialized e"
  by (simp add: extractFrame_result loadVideo_keeps_flag)

text \<open>
  C3, as the specification states it: a call whose buffer is smaller than one decoded
  frame fails. The code returns \<^verbatim>\<open>true\<close> for a buffer of 10 bytes on the loaded
  1920x1080 video, where a frame has \<open>1920 * 1080\<close> bytes already at one byte per pixel.
\<close>

theorem extractFrame_small_buffer_counterexample:
  "length small_buffer = 10
   \<and> sint (width (getMetadata loaded_engine)) = 1920
   \<and> sint (height (getMetadata loaded_engine)) = 1080
   \<and> int (length small_buffer) < frameBytes 1 (getMetadata loaded_engine)
   \<and> fst (extractFrame loaded_engine 0 small_buffer 10) = True"
  by (simp add: loaded_engine_eq small_buffer_def frameBytes_def getMetadata_def
      extractFrame_result)

text \<open>
  C3, amended: \<^verbatim>\<open>extractFrame\<close> does not look at \<^verbatim>\<open>bufferSize\<close>. On an engine with a
  loaded video it returns \<^verbatim>\<open>true\<close> for every buffer, also one smaller than a decoded
  frame, and it writes nothing to the buffer.
\<close>

theorem extractFrame_ignores_bufferSize:
  assumes "fst (loadVideo e path)"
  shows "extractFrame (snd (loadVideo e path)) timestampMs buffer bufferSize =
           (True, buffer, snd (loadVideo e path))"
  using assms by (simp add: extractFrame_result loadVideo_keeps_flag loadVideo_success_iff)

theorem extractFrame_ignores_bufferSize_witness:
  "fst (loadVideo ready_engine ''clip.mp4'')
   \<and> extractFrame loaded_engine 0 small_buffer 10 = (True, small_buffer, loaded_engine)"
proof -
  have ok: "fst (loadVideo ready_engine ''clip.mp4'')"
    by (simp add: loadVideo_success_iff ready_engine_initialized)
  from extractFrame_ignores_bufferSize [OF ok, of 0 small_buffer 10] ok
  show ?thesis by (simp add: loaded_engine_def)
qed

subsection \<open>\<^verbatim>\<open>extractFrame\<close>: what a call changes\<close>

text \<open>
  C9, as stated: for every input the only observable effect of \<^verbatim>\<open>extractFrame\<close> is its
  boolean return value. The call also prints. On the loaded engine the calls with the
  timestamps \<open>5\<close> and \<open>-1\<close> return the same value, leave the same buffer and the same
  object, and print two different lines on \<^verbatim>\<open>std::cout\<close>; on the engine that was
  never initialized the call prints a line on \<^verbatim>\<open>std::cerr\<close>.
\<close>

theorem extractFrame_only_effect_counterexample:
  "extractFrame loaded_engine 5 small_buffer 10 = extractFrame loaded_engine (- 1) small_buffer 10
   \<and> extractFrame_prints loaded_engine 5 small_buffer 10 =
       [(Cout, [Str ''VideoEngine: Extracting frame at '', Int64 5, Str ''ms''])]
   \<and> extractFrame_prints loaded_engine (- 1) small_buffer 10 =
       [(Cout, [Str ''VideoEngine: Extracting frame at '', Int64 (- 1), Str ''ms''])]
   \<and> extractFrame_prints loaded_engine 5 small_buffer 10 \<noteq>
       extractFrame_prints loaded_engine (- 1) small_buffer 10
   \<and> extractFrame_prints fresh_engine 5 small_buffer 10 =
       [(Cerr, [Str ''VideoEngine: Not initialized''])]"
  by (simp add: extractFrame_result extractFrame_prints_def loaded_engine_eq
      fresh_engine_uninitialized)

text \<open>
  C9, amended: for every timestamp, buffer and buffer size, \<^verbatim>\<open>extractFrame\<close> leaves the
  bytes of the caller's buffer and the whole object (the flag \<^verbatim>\<open>initialized_\<close> and
  every field of \<^verbatim>\<open>metadata_\<close>) as they were. Its effects are its boolean return
  value, which is the value of the flag, and one printed line: the timestamp on
  \<^verbatim>\<open>std::cout\<close> when the engine is initialized, \<^verbatim>\<open>Not initialized\<close> on
  \<^verbatim>\<open>std::cerr\<close> when it is not.
\<close>

theorem extractFrame_changes_nothing:
  "fst (snd (extractFrame e timestampMs buffer bufferSize)) = buffer
   \<and> snd (snd (extractFrame e timestampMs buffer bufferSize)) = e
   \<and> initialized (snd (snd (extractFrame e timestampMs buffer bufferSize))) = initialized e
   \<and> getMetadata (snd (snd (extractFrame e timestampMs buffer bufferSize))) = getMetadata e
   \<and> fst (extractFrame e timestampMs buffer bufferSize) = initialized e
   \<and> extractFrame_prints e timestampMs buffer bufferSize =
       [if initialized e
        then (Cout, [Str ''VideoEngine: Extracting frame at '', Int64 timestampMs, Str ''ms''])
        else (Cerr, [Str ''VideoEngine: Not initialized''])]"
  by (simp add: extractFrame_result extractFrame_prints_def)

subsection \<open>\<^verbatim>\<open>initialize\<close>\<close>

text \<open>
  C5: \<^verbatim>\<open>initialize\<close> is idempotent. It returns \<^verbatim>\<open>true\<close> and leaves the engine
  initialized, touching nothing but the flag; on an engine that is initialized already it
  returns \<^verbatim>\<open>true\<close> and leaves the whole object unchanged, so that a second call after
  the first changes nothing more.
\<close>

theorem initialize_idempotent:
  "fst (initialize e) = True
   \<and> initialized (snd (initialize e))
   \<and> metadata (snd (initialize e)) = metadata e
   \<and> (initialized e \<longrightarrow> initialize e = (True, e))
   \<and> initialize (snd (initialize e)) = (True, snd (initialize e))"
  by (simp add: initialize_def)

theorem initialize_idempotent_witness:
  "\<not> initialized fresh_engine
   \<and> initialized ready_engine
   \<and> initialize ready_engine = (True, ready_engine)
   \<and> initialize (snd (initialize fresh_engine)) = (True, snd (initialize fresh_engine))"
  using initialize_idempotent [of fresh_engine] initialize_idempotent [of ready_engine]
    fresh_engine_uninitialized ready_engine_initialized
  by (simp add: ready_engine_def)

text \<open>
  C10: no member function clears the flag. In every sequence of calls, from the first
  \<^verbatim>\<open>initialize\<close> on (the calls \<open>pre\<close> come before it, the calls \<open>cs\<close> after it),
  the engine is initialized, whatever state \<open>e\<close> it started from.
\<close>

theorem initialized_never_cleared:
  "fst (initialize (calls pre e)) = True
   \<and> initialized (calls (pre @ Initialize # cs) e)"
proof -
  have "initialized (call_step Initialize (calls pre e))"
    by (simp add: initialize_result)
  then have "initialized (calls cs (call_step Initialize (calls pre e)))"
    by (rule calls_keep_flag)
  then show ?thesis
    by (simp add: calls_append calls_Cons initialize_result)
qed

subsection \<open>\<^verbatim>\<open>loadVideo\<close>\<close>

text \<open>
  C4: for every path, \<^verbatim>\<open>loadVideo\<close> on an engine that has not been initialized fails
  (it returns \<^verbatim>\<open>false\<close>) and leaves the metadata, and the whole object, unchanged.
\<close>

theorem loadVideo_before_initialize:
  assumes "\<not> initialized e"
  shows "fst (loadVideo e path) = False
         \<and> getMetadata (snd (loadVideo e path)) = getMetadata e
         \<and> snd (loadVideo e path) = e"
  using assms by (simp add: loadVideo_uninitialized)

theorem loadVideo_before_initialize_witness:
  "\<not> initialized fresh_engine
   \<and> fst (loadVideo fresh_engine ''clip.mp4'') = False
   \<and> getMetadata (snd (loadVideo fresh_engine ''clip.mp4'')) = getMetadata fresh_engine
   \<and> snd (loadVideo fresh_engine ''clip.mp4'') = fresh_engine"
  using loadVideo_before_initialize [OF fresh_engine_uninitialized, of "''clip.mp4''"]
    fresh_engine_uninitialized
  by simp

text \<open>
  C8: for every path, \<^verbatim>\<open>loadVideo\<close> on an initialized engine returns \<^verbatim>\<open>true\<close> and
  stores the path with the same constants, whatever the path is: \<^verbatim>\<open>durationMs = 0\<close>,
  \<^verbatim>\<open>frameRate = 30.0\<close>, \<^verbatim>\<open>width = 1920\<close>, \<^verbatim>\<open>height = 1080\<close>,
  \<^verbatim>\<open>codec = "h264"\<close>. It has no failing branch on an initialized engine.
\<close>

theorem loadVideo_stores_constants:
  assumes "initialized e"
  shows "fst (loadVideo e path) = True
         \<and> getMetadata (snd (loadVideo e path)) =
             \<lparr>filePath = path, durationMs = 0, frameRate = Finite 30,
              width = 1920, height = 1080, codec = ''h264''\<rparr>
         \<and> initialized (snd (loadVideo e path))"
  using assms by (simp add: loadVideo_initialized getMetadata_def)

theorem loadVideo_stores_constants_witness:
  "initialized ready_engine
   \<and> fst (loadVideo ready_engine ''no such file'') = True
   \<and> getMetadata (snd (loadVideo ready_engine ''no such file'')) =
       \<lparr>filePath = ''no such file'', durationMs = 0, frameRate = Finite 30,
        width = 1920, height = 1080, codec = ''h264''\<rparr>
   \<and> initialized (snd (loadVideo ready_engine ''no such file''))"
  using loadVideo_stores_constants [OF ready_engine_initialized, of "''no such file''"]
    ready_engine_initialized
  by simp

text \<open>
  C6: after every successful \<^verbatim>\<open>loadVideo\<close> the stored metadata has
  \<^verbatim>\<open>durationMs >= 0\<close>, \<^verbatim>\<open>frameRate > 0\<close>, \<^verbatim>\<open>width > 0\<close> and \<^verbatim>\<open>height > 0\<close>, and it
  still has after any sequence \<open>cs\<close> of further calls (those up to the next load, and
  also the later ones).
\<close>

theorem loadVideo_metadata_valid:
  assumes "fst (loadVideo e path)"
  shows "metadata_valid (getMetadata (snd (loadVideo e path)))
         \<and> metadata_valid (getMetadata (calls cs (snd (loadVideo e path))))"
proof -
  from assms have "initialized e"
    by (simp add: loadVideo_success_iff)
  then have valid: "metadata_valid (metadata (snd (loadVideo e path)))"
    by (rule loaded_metadata_valid)
  then have "metadata_valid (metadata (calls cs (snd (loadVideo e path))))"
    by (rule calls_preserve_valid)
  with valid show ?thesis
    by (simp add: getMetadata_def)
qed

theorem loadVideo_metadata_valid_witness:
  "fst (loadVideo ready_engine ''clip.mp4'')
   \<and> metadata_valid (getMetadata loaded_engine)
   \<and> metadata_valid (getMetadata
        (calls [ExtractFrame 0 small_buffer 10, GetMetadata, Initialize] loaded_engine))"
proof -
  have ok: "fst (loadVideo ready_engine ''clip.mp4'')"
    by (simp add: loadVideo_success_iff ready_engine_initialized)
  from loadVideo_metadata_valid [OF ok,
      of "[ExtractFrame 0 small_buffer 10, GetMetadata, Initialize]"] ok
  show ?thesis by (simp add: loaded_engine_def)
qed

text \<open>
  C7: for every two paths \<open>A\<close> and \<open>B\<close>, after \<^verbatim>\<open>loadVideo(A); loadVideo(B)\<close> on an
  initialized engine both calls have succeeded and \<^verbatim>\<open>getMetadata\<close> returns what a
  single \<^verbatim>\<open>loadVideo(B)\<close> gives on a newly constructed and initialized engine, field
  by field: nothing of \<open>A\<close> is left.
\<close>

theorem reload_reflects_only_second:
  assumes "initialized e"
  shows "fst (loadVideo e A) = True
         \<and> fst (loadVideo (snd (loadVideo e A)) B) = True
         \<and> getMetadata (snd (loadVideo (snd (loadVideo e A)) B)) =
             getMetadata (snd (loadVideo (snd (initialize (VideoEngine_ctor d f w h))) B))"
  using assms
  by (simp add: loadVideo_initialized initialize_result getMetadata_def)

theorem reload_reflects_only_second_witness:
  "initialized ready_engine
   \<and> fst (loadVideo ready_engine ''a.mp4'') = True
   \<and> fst (loadVideo (snd (loadVideo ready_engine ''a.mp4'')) ''b.mov'') = True
   \<and> getMetadata (snd (loadVideo (snd (loadVideo ready_engine ''a.mp4'')) ''b.mov'')) =
       getMetadata (snd (loadVideo (snd (initialize (VideoEngine_ctor 7 MinusInfinity 3 (- 5))))
                     ''b.mov''))"
  using reload_reflects_only_second [OF ready_engine_initialized,
      of "''a.mp4''" "''b.mov''" 7 MinusInfinity 3 "- 5"]
    ready_engine_initialized
  by simp

end
